theory Spec2Isabelle
  imports Complex_Main "HOL-Library.Multiset"
begin

section \<open>Errors and sequencing\<close>

text \<open>
  The module \<^verbatim>\<open>gdsfactory/simulation/gmsh/parse_gds.py\<close> contains no \<^verbatim>\<open>raise\<close> and no
  \<^verbatim>\<open>try\<close>: every exception it can produce is raised by a callee and propagates unchanged.
  Exceptions are values of type \<open>error\<close>; a computation that may raise returns
  \<open>error + 'a\<close> with \<open>Inl\<close> for the exception.
\<close>

datatype error = TypeError | AttributeError | ValueError | GeometryError string

text \<open>
  A list comprehension (or a generator that is consumed completely) whose element
  expression may raise: elements are evaluated from left to right and the first exception
  ends the evaluation.
\<close>

fun traverse :: "('a \<Rightarrow> error + 'b) \<Rightarrow> 'a list \<Rightarrow> error + 'b list" where
  "traverse f [] = Inr []"
| "traverse f (x # xs) =
     (case f x of
        Inl e \<Rightarrow> Inl e
      | Inr y \<Rightarrow> (case traverse f xs of Inl e \<Rightarrow> Inl e | Inr ys \<Rightarrow> Inr (y # ys)))"

section \<open>Coordinate rounding\<close>

text \<open>
  A coordinate tuple of a shapely geometry is a list of two or three numbers. A Polygon is
  its shell ring and its hole rings, each a list of coordinate tuples. The number type
  \<open>'c\<close> stands for Python's float.
\<close>

type_synonym 'c coords = "'c list"

record 'c polygon =
  exterior :: "'c coords list"
  interiors :: "'c coords list list"

text \<open>
  The inner function \<^verbatim>\<open>_round_coords(x, y, z=None)\<close> of \<^verbatim>\<open>round_coordinates\<close>. The
  builtin \<^verbatim>\<open>round\<close> is the parameter \<open>rnd\<close>. The assignments to \<^verbatim>\<open>x\<close> and \<^verbatim>\<open>y\<close> rebind
  the names, so the third assignment \<^verbatim>\<open>z = round(x, ndigits)\<close> reads the rounded \<^verbatim>\<open>x\<close>.
\<close>

definition round_coords :: "('c \<Rightarrow> int \<Rightarrow> 'c) \<Rightarrow> int \<Rightarrow> 'c \<Rightarrow> 'c \<Rightarrow> 'c option \<Rightarrow> 'c list" where
  "round_coords rnd ndigits x0 y0 z0 =
     (let x = rnd x0 ndigits;
          y = rnd y0 ndigits;
          z = (if z0 \<noteq> None then Some (rnd x ndigits) else z0)
      in map the (filter (\<lambda>c. c \<noteq> None) [Some x, Some y, z]))"

text \<open>
  \<^verbatim>\<open>shapely.ops.transform(func, geom)\<close> on a Polygon. An empty geometry is returned as it
  is. Otherwise \<^verbatim>\<open>func(*c)\<close> is called on every coordinate tuple \<^verbatim>\<open>c\<close> of the shell and
  then of every hole (the call with whole coordinate columns comes first, raises TypeError
  in \<^verbatim>\<open>round\<close> and is caught by \<^verbatim>\<open>transform\<close>), and a Polygon is built from the results.
  Calling \<^verbatim>\<open>func(*c)\<close> with fewer than two or more than three numbers is a TypeError.
\<close>

definition call_coords :: "('c \<Rightarrow> 'c \<Rightarrow> 'c option \<Rightarrow> 'c list) \<Rightarrow> 'c coords \<Rightarrow> error + 'c coords" where
  "call_coords func c =
     (case c of
        [x, y] \<Rightarrow> Inr (func x y None)
      | [x, y, z] \<Rightarrow> Inr (func x y (Some z))
      | _ \<Rightarrow> Inl TypeError)"

definition transform :: "('c \<Rightarrow> 'c \<Rightarrow> 'c option \<Rightarrow> 'c list) \<Rightarrow> 'c polygon \<Rightarrow> error + 'c polygon" where
  "transform func geom =
     (if exterior geom = [] then Inr geom
      else case traverse (call_coords func) (exterior geom) of
        Inl e \<Rightarrow> Inl e
      | Inr shell \<Rightarrow>
          (case traverse (traverse (call_coords func)) (interiors geom) of
             Inl e \<Rightarrow> Inl e
           | Inr holes \<Rightarrow> Inr \<lparr>exterior = shell, interiors = holes\<rparr>))"

definition round_coordinates :: "('c \<Rightarrow> int \<Rightarrow> 'c) \<Rightarrow> 'c polygon \<Rightarrow> int \<Rightarrow> error + 'c polygon" where
  "round_coordinates rnd geom ndigits = transform (round_coords rnd ndigits) geom"

text \<open>
  Python's \<^verbatim>\<open>round(x, ndigits)\<close> on exact decimal values, for evaluating the functions at
  concrete inputs: the nearest multiple of \<open>10 ^ (- ndigits)\<close>, a tie going to the even
  multiple. On a float whose value and whose rounding are both exactly representable
  (such as the small integers used below) the builtin returns the same number.
\<close>

definition round_half_even :: "rat \<Rightarrow> int" where
  "round_half_even q =
     (let f = \<lfloor>q\<rfloor>; d = q - of_int f
      in if d < 1 / 2 then f else if 1 / 2 < d then f + 1 else if even f then f else f + 1)"

definition py_round :: "rat \<Rightarrow> int \<Rightarrow> rat" where
  "py_round x ndigits =
     (if 0 \<le> ndigits
      then of_int (round_half_even (x * 10 ^ nat ndigits)) / 10 ^ nat ndigits
      else of_int (round_half_even (x / 10 ^ nat (- ndigits))) * 10 ^ nat (- ndigits))"

section \<open>Fusing the polygons of one layer\<close>

text \<open>
  What \<^verbatim>\<open>fuse_polygons\<close> calls and this module does not define: the methods
  \<^verbatim>\<open>extract\<close> and \<^verbatim>\<open>get_polygons\<close> of a component, the constructor
  \<^verbatim>\<open>shapely.geometry.Polygon\<close>, the builtin \<^verbatim>\<open>round\<close>, \<^verbatim>\<open>shapely.ops.unary_union\<close> and
  the method \<^verbatim>\<open>simplify\<close>. They are parameters, collected in a record; those that can
  raise return \<open>error + _\<close>. The type \<open>'g\<close> is the type of the geometries that a union
  returns.
\<close>

record ('comp, 'sel, 'c, 'g) fusion_ops =
  extract_layer :: "'comp \<Rightarrow> 'sel \<Rightarrow> 'comp"
  get_polygons :: "'comp \<Rightarrow> 'c coords list list"
  Polygon :: "'c coords list \<Rightarrow> error + 'c polygon"
  builtin_round :: "'c \<Rightarrow> int \<Rightarrow> 'c"
  unary_union :: "'c polygon list \<Rightarrow> error + 'g"
  simplify :: "'g \<Rightarrow> 'c \<Rightarrow> bool \<Rightarrow> error + 'g"

definition fuse_polygons ::
  "('comp, 'sel, 'c, 'g) fusion_ops \<Rightarrow> 'comp \<Rightarrow> string \<Rightarrow> 'sel \<Rightarrow> int \<Rightarrow> 'c \<Rightarrow> error + 'g" where
  "fuse_polygons ops component layername layer round_tol simplify_tol =
     (let layer_component = extract_layer ops component layer in
      case traverse
             (\<lambda>polygon. case Polygon ops polygon of
                           Inl e \<Rightarrow> Inl e
                         | Inr p \<Rightarrow> round_coordinates (builtin_round ops) p round_tol)
             (get_polygons ops layer_component) of
        Inl e \<Rightarrow> Inl e
      | Inr shapely_polygons \<Rightarrow>
          (case unary_union ops shapely_polygons of
             Inl e \<Rightarrow> Inl e
           | Inr u \<Rightarrow> simplify ops u simplify_tol True))"

section \<open>Dictionaries\<close>

text \<open>
  A Python dict keeps its keys in insertion order and holds each key once: it is an
  association list whose keys are distinct. Assigning to a key that is present replaces
  the value in place; assigning to a new key appends the entry.
\<close>

type_synonym ('k, 'v) dict = "('k \<times> 'v) list"

fun dict_set :: "('k, 'v) dict \<Rightarrow> 'k \<Rightarrow> 'v \<Rightarrow> ('k, 'v) dict" where
  "dict_set [] k v = [(k, v)]"
| "dict_set ((k', v') # d) k v = (if k' = k then (k', v) # d else (k', v') # dict_set d k v)"

definition keys :: "('k, 'v) dict \<Rightarrow> 'k list" where
  "keys d = map fst d"

definition is_dict :: "('k, 'v) dict \<Rightarrow> bool" where
  "is_dict d = distinct (keys d)"

section \<open>Processing the layer stack\<close>

text \<open>
  An entry of \<^verbatim>\<open>layerstack.to_dict()\<close> is itself a dict; the only key read here is
  \<^verbatim>\<open>"layer"\<close>, whose value may be \<^verbatim>\<open>None\<close>.
\<close>

record 'sel layer_level =
  layer :: "'sel option"

text \<open>
  \<^verbatim>\<open>cleanup_component\<close> is a dict comprehension over \<^verbatim>\<open>layerstack_dict.items()\<close> with the
  filter \<^verbatim>\<open>layer["layer"] is not None\<close>. Besides the dict under construction the loop
  carries the list of layer names for which \<^verbatim>\<open>fuse_polygons\<close> has been called, in call
  order; the list is returned also when a call raises.
\<close>

fun cleanup_loop ::
  "('comp, 'sel, 'c, 'g) fusion_ops \<Rightarrow> 'comp \<Rightarrow> int \<Rightarrow> 'c \<Rightarrow>
   (string \<times> 'sel layer_level) list \<Rightarrow> string list \<Rightarrow> (string, 'g) dict \<Rightarrow>
   string list \<times> (error + (string, 'g) dict)" where
  "cleanup_loop ops component round_tol simplify_tol [] calls out = (calls, Inr out)"
| "cleanup_loop ops component round_tol simplify_tol ((layername, lv) # rest) calls out =
     (case layer lv of
        None \<Rightarrow> cleanup_loop ops component round_tol simplify_tol rest calls out
      | Some sel \<Rightarrow>
          (case fuse_polygons ops component layername sel round_tol simplify_tol of
             Inl e \<Rightarrow> (calls @ [layername], Inl e)
           | Inr fused \<Rightarrow>
               cleanup_loop ops component round_tol simplify_tol rest
                 (calls @ [layername]) (dict_set out layername fused)))"

definition cleanup_component ::
  "('comp, 'sel, 'c, 'g) fusion_ops \<Rightarrow> 'comp \<Rightarrow> (string, 'sel layer_level) dict \<Rightarrow> int \<Rightarrow> 'c \<Rightarrow>
   string list \<times> (error + (string, 'g) dict)" where
  "cleanup_component ops component layerstack_dict round_tol simplify_tol =
     cleanup_loop ops component round_tol simplify_tol layerstack_dict [] []"

section \<open>Tiling\<close>

text \<open>
  What \<^verbatim>\<open>tile_shapes\<close>, \<^verbatim>\<open>to_polygons\<close> and \<^verbatim>\<open>to_lines\<close> use of a shapely geometry:
  the method \<^verbatim>\<open>difference\<close>, the attribute \<^verbatim>\<open>geoms\<close> (\<open>None\<close> where \<^verbatim>\<open>hasattr\<close> is
  false), the attribute \<^verbatim>\<open>geom_type\<close>, the tests \<^verbatim>\<open>isinstance(_, Polygon)\<close> and
  \<^verbatim>\<open>isinstance(_, LineString)\<close>, and the constructors \<^verbatim>\<open>MultiPolygon\<close> and
  \<^verbatim>\<open>MultiLineString\<close>, which may raise.
\<close>

record 'g geometry_ops =
  difference :: "'g \<Rightarrow> 'g \<Rightarrow> 'g"
  geoms :: "'g \<Rightarrow> 'g list option"
  geom_type :: "'g \<Rightarrow> string"
  is_Polygon :: "'g \<Rightarrow> bool"
  is_LineString :: "'g \<Rightarrow> bool"
  MultiPolygon :: "'g list \<Rightarrow> error + 'g"
  MultiLineString :: "'g list \<Rightarrow> error + 'g"

text \<open>
  The generators \<^verbatim>\<open>to_polygons\<close> and \<^verbatim>\<open>to_lines\<close> are consumed completely by their
  caller. One pass of the loop yields the geometry itself or the members of
  \<^verbatim>\<open>geometry.geoms\<close>; reading \<^verbatim>\<open>geoms\<close> from a geometry that has none is an
  AttributeError.
\<close>

definition yield_polygons :: "'g geometry_ops \<Rightarrow> 'g \<Rightarrow> error + 'g list" where
  "yield_polygons ops geometry =
     (if is_Polygon ops geometry then Inr [geometry]
      else case geoms ops geometry of None \<Rightarrow> Inl AttributeError | Some gs \<Rightarrow> Inr gs)"

definition to_polygons :: "'g geometry_ops \<Rightarrow> 'g list \<Rightarrow> error + 'g list" where
  "to_polygons ops geometries =
     (case traverse (yield_polygons ops) geometries of
        Inl e \<Rightarrow> Inl e
      | Inr yielded \<Rightarrow> Inr (concat yielded))"

definition yield_lines :: "'g geometry_ops \<Rightarrow> 'g \<Rightarrow> error + 'g list" where
  "yield_lines ops geometry =
     (if is_LineString ops geometry then Inr [geometry]
      else case geoms ops geometry of None \<Rightarrow> Inl AttributeError | Some gs \<Rightarrow> Inr gs)"

definition to_lines :: "'g geometry_ops \<Rightarrow> 'g list \<Rightarrow> error + 'g list" where
  "to_lines ops geometries =
     (case traverse (yield_lines ops) geometries of
        Inl e \<Rightarrow> Inl e
      | Inr yielded \<Rightarrow> Inr (concat yielded))"

text \<open>
  The expression \<^verbatim>\<open>shapes.geoms if hasattr(shapes, "geoms") else [shapes]\<close>, which the
  source writes out twice.
\<close>

definition geoms_or_self :: "'g geometry_ops \<Rightarrow> 'g \<Rightarrow> 'g list" where
  "geoms_or_self ops shapes = (case geoms ops shapes of Some gs \<Rightarrow> gs | None \<Rightarrow> [shapes])"

text \<open>
  The two inner loops of \<^verbatim>\<open>tile_shapes\<close> for one \<^verbatim>\<open>lower_shape\<close>: over
  \<^verbatim>\<open>reversed(list(enumerate(shapes_dict.items()))[:lower_index])\<close> and, inside, over the
  parts of \<^verbatim>\<open>higher_shapes\<close>; \<^verbatim>\<open>diff_shape\<close> is the accumulator of both.
\<close>

definition subtract_higher ::
  "'g geometry_ops \<Rightarrow> (string, 'g) dict \<Rightarrow> nat \<Rightarrow> 'g \<Rightarrow> 'g" where
  "subtract_higher ops shapes_dict lower_index lower_shape =
     foldl (\<lambda>diff_shape entry.
               case entry of (higher_index, higher_name, higher_shapes) \<Rightarrow>
                 foldl (\<lambda>diff_shape higher_shape. difference ops diff_shape higher_shape)
                       diff_shape (geoms_or_self ops higher_shapes))
           lower_shape
           (rev (take lower_index (enumerate 0 shapes_dict)))"

text \<open>The list \<^verbatim>\<open>tiled_lower_shapes\<close> at the end of the loop over \<^verbatim>\<open>lower_shape\<close>.\<close>

definition tiled_lower_shapes ::
  "'g geometry_ops \<Rightarrow> (string, 'g) dict \<Rightarrow> nat \<Rightarrow> 'g \<Rightarrow> 'g list" where
  "tiled_lower_shapes ops shapes_dict lower_index lower_shapes =
     map (subtract_higher ops shapes_dict lower_index) (geoms_or_self ops lower_shapes)"

text \<open>The final \<^verbatim>\<open>if\<close> of the outer loop body: the value stored under \<^verbatim>\<open>lower_name\<close>.\<close>

definition package_tiles :: "'g geometry_ops \<Rightarrow> 'g list \<Rightarrow> error + 'g" where
  "package_tiles ops tiled =
     (if tiled \<noteq> [] \<and> geom_type ops (hd tiled) \<in> set [''Polygon'', ''MultiPolygon'']
      then (case to_polygons ops tiled of Inl e \<Rightarrow> Inl e | Inr ps \<Rightarrow> MultiPolygon ops ps)
      else MultiLineString ops tiled)"

fun tile_loop ::
  "'g geometry_ops \<Rightarrow> (string, 'g) dict \<Rightarrow> (nat \<times> string \<times> 'g) list \<Rightarrow> (string, 'g) dict \<Rightarrow>
   error + (string, 'g) dict" where
  "tile_loop ops shapes_dict [] shapes_tiled_dict = Inr shapes_tiled_dict"
| "tile_loop ops shapes_dict ((lower_index, lower_name, lower_shapes) # rest) shapes_tiled_dict =
     (case package_tiles ops (tiled_lower_shapes ops shapes_dict lower_index lower_shapes) of
        Inl e \<Rightarrow> Inl e
      | Inr tile \<Rightarrow> tile_loop ops shapes_dict rest (dict_set shapes_tiled_dict lower_name tile))"

definition tile_shapes :: "'g geometry_ops \<Rightarrow> (string, 'g) dict \<Rightarrow> error + (string, 'g) dict" where
  "tile_shapes ops shapes_dict = tile_loop ops shapes_dict (rev (enumerate 0 shapes_dict)) []"

text \<open>
  The entry that one pass of the outer loop stores: for the input entry with index
  \<open>lower_index\<close>, the key \<open>lower_name\<close> and the packaged tiles of \<open>lower_shapes\<close>.
\<close>

definition tile_of ::
  "'g geometry_ops \<Rightarrow> (string, 'g) dict \<Rightarrow> nat \<times> string \<times> 'g \<Rightarrow> string \<times> 'g \<Rightarrow> bool" where
  "tile_of ops d entry kv \<longleftrightarrow>
     fst kv = fst (snd entry) \<and>
     package_tiles ops (tiled_lower_shapes ops d (fst entry) (snd (snd entry))) = Inr (snd kv)"

section \<open>Assumptions on the geometry library\<close>

text \<open>
  The tiling claims speak of the area a geometry occupies. The function \<open>pts\<close> gives the
  set of points of a geometry, read up to boundaries; the library is taken to compute the
  set difference, a collection to occupy what its parts occupy, and a constructor that
  returns to build a geometry that occupies what its arguments occupy.
\<close>

definition point_set_semantics :: "'g geometry_ops \<Rightarrow> ('g \<Rightarrow> 'p set) \<Rightarrow> bool" where
  "point_set_semantics ops pts \<longleftrightarrow>
     (\<forall>a b. pts (difference ops a b) = pts a - pts b) \<and>
     (\<forall>g gs. geoms ops g = Some gs \<longrightarrow> pts g = \<Union> (pts ` set gs)) \<and>
     (\<forall>gs m. MultiPolygon ops gs = Inr m \<longrightarrow> pts m = \<Union> (pts ` set gs)) \<and>
     (\<forall>gs m. MultiLineString ops gs = Inr m \<longrightarrow> pts m = \<Union> (pts ` set gs))"

text \<open>The constructors return geometries of the type they are named after.\<close>

definition constructor_types :: "'g geometry_ops \<Rightarrow> bool" where
  "constructor_types ops \<longleftrightarrow>
     (\<forall>gs m. MultiPolygon ops gs = Inr m \<longrightarrow> geom_type ops m = ''MultiPolygon'') \<and>
     (\<forall>gs m. MultiLineString ops gs = Inr m \<longrightarrow> geom_type ops m = ''MultiLineString'')"

text \<open>The area that the layers of a dict occupy together.\<close>

definition occupied :: "('g \<Rightarrow> 'p set) \<Rightarrow> (string, 'g) dict \<Rightarrow> 'p set" where
  "occupied pts d = \<Union> (pts ` snd ` set d)"

section \<open>A raster geometry for evaluation\<close>

text \<open>
  An instance of \<open>geometry_ops\<close> on which the functions above can be evaluated: the plane
  is a grid of numbered cells, a simple shape is the list of cells it covers, and a
  collection is the list of its parts. The boolean operation works cell by cell, and a
  constructor accepts parts of its own kind only.
\<close>

datatype raster =
    RPolygon "nat list"
  | RLineString "nat list"
  | RMultiPolygon "nat list list"
  | RMultiLineString "nat list list"

fun raster_cells :: "raster \<Rightarrow> nat set" where
  "raster_cells (RPolygon cs) = set cs"
| "raster_cells (RLineString cs) = set cs"
| "raster_cells (RMultiPolygon css) = \<Union> (set ` set css)"
| "raster_cells (RMultiLineString css) = \<Union> (set ` set css)"

definition erase :: "raster \<Rightarrow> nat list \<Rightarrow> nat list" where
  "erase h cs = filter (\<lambda>c. c \<notin> raster_cells h) cs"

fun raster_difference :: "raster \<Rightarrow> raster \<Rightarrow> raster" where
  "raster_difference (RPolygon cs) h = RPolygon (erase h cs)"
| "raster_difference (RLineString cs) h = RLineString (erase h cs)"
| "raster_difference (RMultiPolygon css) h = RMultiPolygon (map (erase h) css)"
| "raster_difference (RMultiLineString css) h = RMultiLineString (map (erase h) css)"

fun raster_geoms :: "raster \<Rightarrow> raster list option" where
  "raster_geoms (RPolygon cs) = None"
| "raster_geoms (RLineString cs) = None"
| "raster_geoms (RMultiPolygon css) = Some (map RPolygon css)"
| "raster_geoms (RMultiLineString css) = Some (map RLineString css)"

fun raster_geom_type :: "raster \<Rightarrow> string" where
  "raster_geom_type (RPolygon cs) = ''Polygon''"
| "raster_geom_type (RLineString cs) = ''LineString''"
| "raster_geom_type (RMultiPolygon css) = ''MultiPolygon''"
| "raster_geom_type (RMultiLineString css) = ''MultiLineString''"

fun polygon_part :: "raster \<Rightarrow> error + nat list" where
  "polygon_part (RPolygon cs) = Inr cs"
| "polygon_part g = Inl TypeError"

fun line_part :: "raster \<Rightarrow> error + nat list" where
  "line_part (RLineString cs) = Inr cs"
| "line_part g = Inl TypeError"

definition raster_MultiPolygon :: "raster list \<Rightarrow> error + raster" where
  "raster_MultiPolygon gs =
     (case traverse polygon_part gs of Inl e \<Rightarrow> Inl e | Inr css \<Rightarrow> Inr (RMultiPolygon css))"

definition raster_MultiLineString :: "raster list \<Rightarrow> error + raster" where
  "raster_MultiLineString gs =
     (case traverse line_part gs of Inl e \<Rightarrow> Inl e | Inr css \<Rightarrow> Inr (RMultiLineString css))"

definition raster_ops :: "raster geometry_ops" where
  "raster_ops =
     \<lparr>difference = raster_difference,
      geoms = raster_geoms,
      geom_type = raster_geom_type,
      is_Polygon = (\<lambda>g. raster_geom_type g = ''Polygon''),
      is_LineString = (\<lambda>g. raster_geom_type g = ''LineString''),
      MultiPolygon = raster_MultiPolygon,
      MultiLineString = raster_MultiLineString\<rparr>"

section \<open>A layout for evaluation\<close>

text \<open>
  An instance of \<open>fusion_ops\<close>: a layout is a list of raw polygons, each with the number
  of the layer it is drawn on; a selector is a layer number. As in shapely, the
  constructor \<^verbatim>\<open>Polygon\<close> raises ValueError on a ring of fewer than three coordinate
  tuples and closes an open ring. The union is kept symbolic, as the set of the
  polygons united, and simplification returns its argument.
\<close>

type_synonym layout = "(nat \<times> rat coords list) list"

definition layout_Polygon :: "rat coords list \<Rightarrow> error + rat polygon" where
  "layout_Polygon ring =
     (if length ring < 3 then Inl ValueError
      else Inr \<lparr>exterior = (if last ring = hd ring then ring else ring @ [hd ring]),
                interiors = []\<rparr>)"

definition layout_ops :: "(layout, nat, rat, rat polygon set) fusion_ops" where
  "layout_ops =
     \<lparr>extract_layer = (\<lambda>component sel. filter (\<lambda>entry. fst entry = sel) component),
      get_polygons = map snd,
      Polygon = layout_Polygon,
      builtin_round = py_round,
      unary_union = (\<lambda>ps. Inr (set ps)),
      simplify = (\<lambda>g tol preserve_topology. Inr g)\<rparr>"

section \<open>Properties of coordinate rounding\<close>

lemma traverse_length: "traverse f xs = Inr ys \<Longrightarrow> length ys = length xs"
  by (induction xs arbitrary: ys) (auto split: sum.splits)

lemma traverse_fixed:
  "traverse f xs = Inr ys \<Longrightarrow> \<forall>x\<in>set xs. \<forall>y. f x = Inr y \<longrightarrow> g y = Inr y \<Longrightarrow>
   traverse g ys = Inr ys"
  by (induction xs arbitrary: ys) (auto split: sum.splits)

lemma round_coords_None: "round_coords rnd n x y None = [rnd x n, rnd y n]"
  by (simp add: round_coords_def Let_def)

text \<open>The third coordinate of the result is computed from \<open>x\<close>; the argument \<open>z\<close> is only
  tested against \<open>None\<close>.\<close>

lemma round_coords_Some: "round_coords rnd n x y (Some z) = [rnd x n, rnd y n, rnd (rnd x n) n]"
  by (simp add: round_coords_def Let_def)

lemma call_round_coords_fixed:
  assumes "\<And>x. rnd (rnd x n) n = rnd x n" and "call_coords (round_coords rnd n) c = Inr c'"
  shows "call_coords (round_coords rnd n) c' = Inr c'"
  using assms
  by (auto simp: call_coords_def round_coords_None round_coords_Some split: list.splits)

lemma round_half_even_of_int: "round_half_even (of_int k) = k"
  by (simp add: round_half_even_def)

lemma py_round_idem: "py_round (py_round x n) n = py_round x n"
  by (simp add: py_round_def round_half_even_of_int)

text \<open>
  Claim C5. The claim asks that every coordinate of every vertex of the result, the third
  one included, is the corresponding input coordinate rounded. On a ring with three
  coordinates per vertex \<^verbatim>\<open>round_coordinates\<close> returns, as third coordinate, the rounded
  first coordinate: the triangle through \<open>(1, 2, 3)\<close>, \<open>(4, 5, 6)\<close>, \<open>(7, 8, 9)\<close>, whose
  coordinates need no rounding at five digits, comes back with the third coordinates
  \<open>1\<close>, \<open>4\<close>, \<open>7\<close>.
\<close>

theorem round_coordinates_third_coordinate:
  "round_coordinates py_round
     \<lparr>exterior = [[1, 2, 3], [4, 5, 6], [7, 8, 9], [1, 2, 3]], interiors = []\<rparr> 5
   = Inr \<lparr>exterior = [[1, 2, 1], [4, 5, 4], [7, 8, 7], [1, 2, 1]], interiors = []\<rparr>"
  by (simp add: round_coordinates_def transform_def call_coords_def round_coords_def
      py_round_def round_half_even_def Let_def)

text \<open>
  Claim C7. Rounding a Region that has been rounded at the same precision returns it
  unchanged: \<open>round (round R n) n = round R n\<close>, an exception of the first call being the
  result of the composition. The builtin \<^verbatim>\<open>round\<close> is assumed idempotent at that
  precision.
\<close>

theorem round_coordinates_idempotent:
  assumes idem: "\<And>x. rnd (rnd x ndigits) ndigits = rnd x ndigits"
  shows "(case round_coordinates rnd geom ndigits of
            Inl e \<Rightarrow> Inl e
          | Inr rounded \<Rightarrow> round_coordinates rnd rounded ndigits)
         = round_coordinates rnd geom ndigits"
proof (cases "round_coordinates rnd geom ndigits")
  case (Inl e)
  then show ?thesis by simp
next
  case (Inr rounded)
  let ?f = "call_coords (round_coords rnd ndigits)"
  show ?thesis
  proof (cases "exterior geom = []")
    case True
    with Inr show ?thesis by (simp add: round_coordinates_def transform_def)
  next
    case False
    from Inr False obtain shell holes where
      sh: "traverse ?f (exterior geom) = Inr shell" and
      ho: "traverse (traverse ?f) (interiors geom) = Inr holes" and
      r: "rounded = \<lparr>exterior = shell, interiors = holes\<rparr>"
      by (auto simp: round_coordinates_def transform_def split: sum.splits)
    have fix1: "\<forall>c c'. ?f c = Inr c' \<longrightarrow> ?f c' = Inr c'"
      using call_round_coords_fixed[of rnd ndigits] idem by blast
    have s2: "traverse ?f shell = Inr shell"
      using traverse_fixed[OF sh] fix1 by blast
    have fix2: "\<forall>r r'. traverse ?f r = Inr r' \<longrightarrow> traverse ?f r' = Inr r'"
      using traverse_fixed[where f="?f" and g="?f"] fix1 by blast
    have h2: "traverse (traverse ?f) holes = Inr holes"
      using traverse_fixed[OF ho] fix2 by blast
    show ?thesis using Inr r s2 h2
      by (simp add: round_coordinates_def transform_def)
  qed
qed

theorem round_coordinates_idempotent_witness:
  "round_coordinates py_round
     \<lparr>exterior = [[1 / 3, 5 / 8], [7 / 2, 0, 9], [1, 2 / 7], [1 / 3, 5 / 8]],
      interiors = [[[1 / 8, 1 / 8], [1 / 4, 1 / 8], [1 / 8, 3 / 8], [1 / 8, 1 / 8]]]\<rparr> 2
   = Inr \<lparr>exterior = [[33 / 100, 31 / 50], [7 / 2, 0, 7 / 2], [1, 29 / 100], [33 / 100, 31 / 50]],
          interiors = [[[3 / 25, 3 / 25], [1 / 4, 3 / 25], [3 / 25, 19 / 50], [3 / 25, 3 / 25]]]\<rparr>
   \<and> round_coordinates py_round
     \<lparr>exterior = [[33 / 100, 31 / 50], [7 / 2, 0, 7 / 2], [1, 29 / 100], [33 / 100, 31 / 50]],
      interiors = [[[3 / 25, 3 / 25], [1 / 4, 3 / 25], [3 / 25, 19 / 50], [3 / 25, 3 / 25]]]\<rparr> 2
   = Inr \<lparr>exterior = [[33 / 100, 31 / 50], [7 / 2, 0, 7 / 2], [1, 29 / 100], [33 / 100, 31 / 50]],
          interiors = [[[3 / 25, 3 / 25], [1 / 4, 3 / 25], [3 / 25, 19 / 50], [3 / 25, 3 / 25]]]\<rparr>"
proof -
  let ?g = "\<lparr>exterior = [[1 / 3, 5 / 8], [7 / 2, 0, 9], [1, 2 / 7], [1 / 3, 5 / 8 :: rat]],
      interiors = [[[1 / 8, 1 / 8], [1 / 4, 1 / 8], [1 / 8, 3 / 8], [1 / 8, 1 / 8]]]\<rparr>"
  have first: "round_coordinates py_round ?g 2
     = Inr \<lparr>exterior = [[33 / 100, 31 / 50], [7 / 2, 0, 7 / 2], [1, 29 / 100], [33 / 100, 31 / 50]],
          interiors = [[[3 / 25, 3 / 25], [1 / 4, 3 / 25], [3 / 25, 19 / 50], [3 / 25, 3 / 25]]]\<rparr>"
    by code_simp
  show ?thesis
    using round_coordinates_idempotent[of py_round 2 ?g, OF py_round_idem] first by simp
qed

end
